theory Spec2Isabelle
  imports Main "HOL-Library.Sublist"
begin

section \<open>Data model of the chat interface\<close>

text \<open>
  The component \<open>OllamaChatInterface\<close> keeps its state in React state cells and mirrors
  part of it in the browser's \<open>localStorage\<close>. A JavaScript string is modelled as a
  \<open>string\<close>, the time value of a \<open>Date\<close> as the number of milliseconds since the epoch
  (\<open>None\<close> is JavaScript's Invalid Date), and a number printed into a string by its
  decimal digits.
\<close>

datatype Role = User | Assistant

datatype ModelType = Ollama | Openrouter

datatype ConnectionStatus = Connected | Disconnected | Checking

type_synonym date = "int option"

record Message =
  id_msg :: string
  role :: Role
  content :: string
  timestamp :: date

record ChatState =
  userName :: string
  userAvatar :: string
  aiAvatar :: string
  editingName :: bool
  tempUserName :: string
  messages :: "Message list"
  userInput :: string
  isLoading :: bool
  connectionStatus :: ConnectionStatus
  selectedModel :: ModelType
  error :: "string option"

text \<open>The initial values of the \<open>useState\<close> cells.\<close>

definition initial_state :: ChatState where
  "initial_state =
     \<lparr>userName = ''User'', userAvatar = [], aiAvatar = [], editingName = False,
      tempUserName = [], messages = [], userInput = [], isLoading = False,
      connectionStatus = Checking, selectedModel = Ollama, error = None\<rparr>"

subsection \<open>Strings: decimal rendering and \<open>trim\<close>\<close>

definition digit_char :: "nat \<Rightarrow> char" where
  "digit_char d = ''0123456789'' ! d"

fun digits :: "nat \<Rightarrow> string" where
  "digits n = (if n < 10 then [digit_char n] else digits (n div 10) @ [digit_char (n mod 10)])"

declare digits.simps [simp del]

text \<open>\<open>Number.prototype.toString\<close> on an integer, as \<open>Date.now().toString()\<close> and the
  template literals \<open>`${userSeed}`\<close>, \<open>`${response.status}`\<close> print it.\<close>

definition number_toString :: "int \<Rightarrow> string" where
  "number_toString i = (if i < 0 then CHR ''-'' # digits (nat (- i)) else digits (nat i))"

text \<open>The white space \<open>String.prototype.trim\<close> strips, among the characters a
  \<open>char\<close> can hold: TAB, LF, VT, FF, CR, SP and NBSP.\<close>

definition isWhiteSpace :: "char \<Rightarrow> bool" where
  "isWhiteSpace c = List.member [CHR 0x09, CHR 0x0A, CHR 0x0B, CHR 0x0C, CHR 0x0D, CHR 0x20, CHR 0xA0] c"

definition trim :: "string \<Rightarrow> string" where
  "trim s = rev (dropWhile isWhiteSpace (rev (dropWhile isWhiteSpace s)))"

subsection \<open>The platform's date codec and \<open>localStorage\<close>\<close>

text \<open>
  \<open>JSON.stringify\<close> prints a \<open>Date\<close> through \<open>toISOString\<close> (and an Invalid Date as
  \<open>null\<close>); \<open>new Date(text)\<close> parses it back. Both belong to the JavaScript platform,
  not to the repository, and are parameters of the model.
\<close>

record Platform =
  toISOString :: "int \<Rightarrow> string"
  parseDate :: "string \<Rightarrow> date"

text \<open>A message as \<open>JSON.parse\<close> returns it: the timestamp is a string, or \<open>null\<close>.\<close>

record StoredMessage =
  s_id :: string
  s_role :: Role
  s_content :: string
  s_timestamp :: "string option"

text \<open>The four keys the component uses: \<open>healthcare-chat-username\<close>,
  \<open>healthcare-user-avatar\<close>, \<open>healthcare-ai-avatar\<close> and \<open>healthcare-chat-history\<close>
  (the JSON text of the history is kept as the value it denotes).\<close>

record LocalStorage =
  chat_username :: "string option"
  user_avatar :: "string option"
  ai_avatar :: "string option"
  chat_history :: "StoredMessage list option"

definition empty_storage :: LocalStorage where
  "empty_storage = \<lparr>chat_username = None, user_avatar = None, ai_avatar = None, chat_history = None\<rparr>"

definition JSON_stringify :: "Platform \<Rightarrow> Message \<Rightarrow> StoredMessage" where
  "JSON_stringify P m =
     \<lparr>s_id = id_msg m, s_role = role m, s_content = content m,
      s_timestamp = (case timestamp m of None \<Rightarrow> None | Some t \<Rightarrow> Some (toISOString P t))\<rparr>"

text \<open>\<open>{...msg, timestamp: msg.timestamp ? new Date(msg.timestamp) : new Date()}\<close>\<close>

definition withTimestamp :: "Platform \<Rightarrow> int \<Rightarrow> StoredMessage \<Rightarrow> Message" where
  "withTimestamp P now sm =
     \<lparr>id_msg = s_id sm, role = s_role sm, content = s_content sm,
      timestamp = (case s_timestamp sm of
                     None \<Rightarrow> Some now
                   | Some txt \<Rightarrow> if txt = [] then Some now else parseDate P txt)\<rparr>"

definition welcomeMessage :: "int \<Rightarrow> Message" where
  "welcomeMessage now =
     \<lparr>id_msg = ''welcome-message'', role = Assistant,
      content = ''Hello! I'm your FemCare assistant powered by Ollama. I can help answer women's health questions, check symptoms, or recommend specialists. How can I help you today?'',
      timestamp = Some now\<rparr>"


section \<open>The operations of the component\<close>

subsection \<open>Loading and saving (the effects that run on activation and after a change)\<close>

definition avatar_url :: "string \<Rightarrow> nat \<Rightarrow> string" where
  "avatar_url style seed =
     ''https://api.dicebear.com/7.x/'' @ style @ ''/svg?seed='' @ number_toString (int seed)"

text \<open>The load effect, in the order of the source: the user name, the two avatars (a
  missing one is generated from a random seed and stored), the chat history (a missing
  one is seeded with the welcome message and stored). \<open>getItem\<close> returns a string or
  \<open>null\<close>; \<open>if (saved)\<close> is false for \<open>null\<close> and for the empty string.\<close>

definition load_userName :: "ChatState \<times> LocalStorage \<Rightarrow> ChatState \<times> LocalStorage" where
  "load_userName c =
     (case c of (s, st) \<Rightarrow>
       (case chat_username st of
          None \<Rightarrow> (s, st)
        | Some n \<Rightarrow> if n = [] then (s, st) else (s\<lparr>userName := n\<rparr>, st)))"

definition load_userAvatar :: "nat \<Rightarrow> ChatState \<times> LocalStorage \<Rightarrow> ChatState \<times> LocalStorage" where
  "load_userAvatar userSeed c =
     (case c of (s, st) \<Rightarrow>
       (let newUserAvatar = avatar_url ''avataaars'' userSeed;
            generated = (s\<lparr>userAvatar := newUserAvatar\<rparr>, st\<lparr>user_avatar := Some newUserAvatar\<rparr>)
        in case user_avatar st of
             None \<Rightarrow> generated
           | Some a \<Rightarrow> if a = [] then generated else (s\<lparr>userAvatar := a\<rparr>, st)))"

definition load_aiAvatar :: "nat \<Rightarrow> ChatState \<times> LocalStorage \<Rightarrow> ChatState \<times> LocalStorage" where
  "load_aiAvatar aiSeed c =
     (case c of (s, st) \<Rightarrow>
       (let newAiAvatar = avatar_url ''bottts'' aiSeed;
            generated = (s\<lparr>aiAvatar := newAiAvatar\<rparr>, st\<lparr>ai_avatar := Some newAiAvatar\<rparr>)
        in case ai_avatar st of
             None \<Rightarrow> generated
           | Some a \<Rightarrow> if a = [] then generated else (s\<lparr>aiAvatar := a\<rparr>, st)))"

definition load_history :: "Platform \<Rightarrow> int \<Rightarrow> ChatState \<times> LocalStorage \<Rightarrow> ChatState \<times> LocalStorage" where
  "load_history P now c =
     (case c of (s, st) \<Rightarrow>
       (case chat_history st of
          Some parsedMessages \<Rightarrow> (s\<lparr>messages := map (withTimestamp P now) parsedMessages\<rparr>, st)
        | None \<Rightarrow>
            (s\<lparr>messages := [welcomeMessage now]\<rparr>,
             st\<lparr>chat_history := Some [JSON_stringify P (welcomeMessage now)]\<rparr>)))"

definition load_effect ::
  "Platform \<Rightarrow> int \<Rightarrow> nat \<Rightarrow> nat \<Rightarrow> ChatState \<times> LocalStorage \<Rightarrow> ChatState \<times> LocalStorage" where
  "load_effect P now userSeed aiSeed c =
     load_history P now (load_aiAvatar aiSeed (load_userAvatar userSeed (load_userName c)))"

text \<open>\<open>if (messages.length > 0) localStorage.setItem("healthcare-chat-history", ...)\<close>\<close>

definition save_effect :: "Platform \<Rightarrow> ChatState \<Rightarrow> LocalStorage \<Rightarrow> LocalStorage" where
  "save_effect P s st =
     (if length (messages s) > 0 then st\<lparr>chat_history := Some (map (JSON_stringify P) (messages s))\<rparr>
      else st)"

subsection \<open>Submitting a message\<close>

text \<open>
  What \<open>fetch\<close> gives back: the promise is rejected with a thrown value (a network
  failure), or resolves to a response. \<open>response.ok\<close> is the platform's reading of the
  status: true exactly for 200 to 299. The body stands for the reply the backend sent.
\<close>

datatype thrown = Error string | NonError

record Response =
  status :: nat
  body :: string

datatype fetch_outcome = Rejected thrown | Resolved Response

definition ok :: "Response \<Rightarrow> bool" where
  "ok r = (200 \<le> status r \<and> status r \<le> 299)"

text \<open>The JSON body of the request to \<open>/api/chat\<close>: the two keys \<open>messages\<close> and
  \<open>model_type\<close>.\<close>

record ChatRequest =
  req_messages :: "(Role \<times> string) list"
  req_model_type :: ModelType

definition userMessage :: "int \<Rightarrow> int \<Rightarrow> ChatState \<Rightarrow> Message" where
  "userMessage idNow tsNow s =
     \<lparr>id_msg = number_toString idNow, role = User, content = userInput s, timestamp = Some tsNow\<rparr>"

text \<open>
  \<open>handleSubmit\<close> up to its \<open>await\<close>: \<open>None\<close> is the early return on a blank input;
  otherwise the user message is appended and the request leaves. The handler reads
  \<open>messages\<close>, \<open>userInput\<close> and \<open>selectedModel\<close> of the render it belongs to, here the
  current state. It reads the clock twice (\<open>Date.now()\<close> and \<open>new Date()\<close>).
\<close>

definition handleSubmit_send :: "int \<Rightarrow> int \<Rightarrow> ChatState \<Rightarrow> (ChatState \<times> ChatRequest) option" where
  "handleSubmit_send idNow tsNow s =
     (if trim (userInput s) = [] then None
      else Some (s\<lparr>messages := messages s @ [userMessage idNow tsNow s]\<rparr>,
                 \<lparr>req_messages = map (\<lambda>m. (role m, content m)) (messages s @ [userMessage idNow tsNow s]),
                  req_model_type = selectedModel s\<rparr>))"

text \<open>
  \<open>handleSubmit\<close> after its \<open>await\<close>: the input is cleared once a response is there;
  a response that is not ok throws; the place where the reply would be handled holds only
  the comment \<open>Handle streaming response...\<close>; \<open>catch\<close> records the message of what
  was thrown; \<open>finally\<close> sets the loading flag to false.
\<close>

definition handleSubmit_settle :: "fetch_outcome \<Rightarrow> ChatState \<Rightarrow> ChatState" where
  "handleSubmit_settle outcome s =
     (case outcome of
        Rejected e \<Rightarrow>
          s\<lparr>error := Some (case e of Error msg \<Rightarrow> msg | NonError \<Rightarrow> ''An unknown error occurred''),
            isLoading := False\<rparr>
      | Resolved response \<Rightarrow>
          (if ok response then s\<lparr>userInput := [], isLoading := False\<rparr>
           else s\<lparr>userInput := [],
                  error := Some (''HTTP error! status: '' @ number_toString (int (status response))),
                  isLoading := False\<rparr>))"

text \<open>A whole call of \<open>handleSubmit\<close>, from the event to the end of \<open>finally\<close>, when
  nothing else happens in between.\<close>

definition handleSubmit :: "int \<Rightarrow> int \<Rightarrow> fetch_outcome \<Rightarrow> ChatState \<Rightarrow> ChatState" where
  "handleSubmit idNow tsNow outcome s =
     (case handleSubmit_send idNow tsNow s of
        None \<Rightarrow> s
      | Some (s', request) \<Rightarrow> handleSubmit_settle outcome s')"

subsection \<open>Clearing the chat, the profile, the model selector\<close>

definition handleClearChat ::
  "Platform \<Rightarrow> int \<Rightarrow> ChatState \<times> LocalStorage \<Rightarrow> ChatState \<times> LocalStorage" where
  "handleClearChat P now c =
     (case c of (s, st) \<Rightarrow>
        (s\<lparr>messages := [welcomeMessage now]\<rparr>,
         st\<lparr>chat_history := Some [JSON_stringify P (welcomeMessage now)]\<rparr>))"

definition handleSaveUserName :: "ChatState \<times> LocalStorage \<Rightarrow> ChatState \<times> LocalStorage" where
  "handleSaveUserName c =
     (case c of (s, st) \<Rightarrow>
        (if trim (tempUserName s) = [] then (s\<lparr>editingName := False\<rparr>, st)
         else (s\<lparr>userName := tempUserName s, editingName := False\<rparr>,
               st\<lparr>chat_username := Some (tempUserName s)\<rparr>)))"

definition handleGenerateNewAvatars ::
  "nat \<Rightarrow> nat \<Rightarrow> ChatState \<times> LocalStorage \<Rightarrow> ChatState \<times> LocalStorage" where
  "handleGenerateNewAvatars userSeed aiSeed c =
     (case c of (s, st) \<Rightarrow>
        (let newUserAvatar = avatar_url ''avataaars'' userSeed;
             newAiAvatar = avatar_url ''bottts'' aiSeed
         in (s\<lparr>userAvatar := newUserAvatar, aiAvatar := newAiAvatar\<rparr>,
             st\<lparr>user_avatar := Some newUserAvatar, ai_avatar := Some newAiAvatar\<rparr>)))"

text \<open>The submit button's \<open>disabled={isLoading || !userInput.trim()}\<close> and the spinner's
  \<open>{isLoading && ...}\<close>.\<close>

definition submit_disabled :: "ChatState \<Rightarrow> bool" where
  "submit_disabled s = (isLoading s \<or> trim (userInput s) = [])"

definition spinner_shown :: "ChatState \<Rightarrow> bool" where
  "spinner_shown s = isLoading s"

subsection \<open>Connectivity\<close>

text \<open>
  What a health probe gives back to \<open>checkOllamaStatus\<close> and \<open>checkStatus\<close>: the
  \<open>fetch\<close> or \<open>response.json()\<close> throws (network failure, time-out, a body that is not
  JSON, or one with no fields to read), or the body is there and its \<open>status\<close> field is a
  string or something else (\<open>None\<close>).
\<close>

datatype probe_outcome = ProbeFailed | ProbeData "string option"

definition checkOllamaStatus :: "probe_outcome \<Rightarrow> ChatState \<Rightarrow> ChatState" where
  "checkOllamaStatus outcome s =
     (case outcome of
        ProbeData st \<Rightarrow>
          s\<lparr>connectionStatus := (if st = Some ''online'' then Connected else Disconnected)\<rparr>
      | ProbeFailed \<Rightarrow> s\<lparr>connectionStatus := Disconnected\<rparr>)"

text \<open>The widget \<open>ApiStatus\<close>: one \<open>try\<close> around both probes, the second awaited after the
  first, one \<open>setStatus\<close> at the end, and a \<open>catch\<close> that only logs.\<close>

record ApiStatusState =
  ollama :: bool
  openrouter :: bool

definition ApiStatus_initial :: ApiStatusState where
  "ApiStatus_initial = \<lparr>ollama = False, openrouter = False\<rparr>"

definition checkStatus :: "probe_outcome \<Rightarrow> probe_outcome \<Rightarrow> ApiStatusState \<Rightarrow> ApiStatusState" where
  "checkStatus ollamaProbe openRouterProbe st =
     (case ollamaProbe of
        ProbeFailed \<Rightarrow> st
      | ProbeData ollamaData \<Rightarrow>
          (case openRouterProbe of
             ProbeFailed \<Rightarrow> st
           | ProbeData openRouterData \<Rightarrow>
               \<lparr>ollama = (ollamaData = Some ''online''),
                openrouter = (openRouterData = Some ''online'')\<rparr>))"

text \<open>The route handler \<open>GET\<close>: it asks Ollama's health endpoint and answers with a body
  of its own, whatever happens.\<close>

record HealthBody =
  body_status :: string
  body_message :: "string option"

definition GET :: "fetch_outcome \<Rightarrow> HealthBody" where
  "GET upstream =
     (case upstream of
        Resolved response \<Rightarrow>
          (if ok response then \<lparr>body_status = ''online'', body_message = None\<rparr>
           else \<lparr>body_status = ''offline'', body_message = None\<rparr>)
      | Rejected e \<Rightarrow>
          \<lparr>body_status = ''offline'',
           body_message = Some ''Ollama is not available in production environment''\<rparr>)"

section \<open>The session as a transition system\<close>

text \<open>
  The browser runs one handler at a time. Between the two halves of \<open>handleSubmit\<close> any
  other event may be handled, so a request that has left and is not yet answered is kept
  in \<open>inflight\<close>. After every change of \<open>messages\<close> the save effect runs.
\<close>

record System =
  ui :: ChatState
  storage :: LocalStorage
  inflight :: "ChatRequest list"

datatype event =
    Mount int nat nat
  | SetUserInput string
  | Submit int int
  | FetchSettled nat fetch_outcome
  | ClearChat int
  | SetEditingName
  | SetTempUserName string
  | SaveUserName
  | GenerateNewAvatars nat nat
  | SelectModel ModelType
  | OllamaProbe probe_outcome

text \<open>Activation: fresh state cells, the load effect, then the save effect. Requests of
  an earlier activation no longer reach the component.\<close>

definition mount :: "Platform \<Rightarrow> int \<Rightarrow> nat \<Rightarrow> nat \<Rightarrow> LocalStorage \<Rightarrow> System" where
  "mount P now userSeed aiSeed st =
     (case load_effect P now userSeed aiSeed (initial_state, st) of
        (s, st') \<Rightarrow> \<lparr>ui = s, storage = save_effect P s st', inflight = []\<rparr>)"

definition drop_nth :: "nat \<Rightarrow> 'a list \<Rightarrow> 'a list" where
  "drop_nth i xs = take i xs @ drop (Suc i) xs"

fun step :: "Platform \<Rightarrow> event \<Rightarrow> System \<Rightarrow> System" where
  "step P (Mount now userSeed aiSeed) sys = mount P now userSeed aiSeed (storage sys)"
| "step P (SetUserInput txt) sys = sys\<lparr>ui := (ui sys)\<lparr>userInput := txt\<rparr>\<rparr>"
| "step P (Submit idNow tsNow) sys =
     (case handleSubmit_send idNow tsNow (ui sys) of
        None \<Rightarrow> sys
      | Some (s, request) \<Rightarrow>
          \<lparr>ui = s, storage = save_effect P s (storage sys), inflight = inflight sys @ [request]\<rparr>)"
| "step P (FetchSettled i outcome) sys =
     (if i < length (inflight sys)
      then sys\<lparr>ui := handleSubmit_settle outcome (ui sys), inflight := drop_nth i (inflight sys)\<rparr>
      else sys)"
| "step P (ClearChat now) sys =
     (case handleClearChat P now (ui sys, storage sys) of
        (s, st) \<Rightarrow> sys\<lparr>ui := s, storage := save_effect P s st\<rparr>)"
| "step P SetEditingName sys = sys\<lparr>ui := (ui sys)\<lparr>editingName := True\<rparr>\<rparr>"
| "step P (SetTempUserName txt) sys = sys\<lparr>ui := (ui sys)\<lparr>tempUserName := txt\<rparr>\<rparr>"
| "step P SaveUserName sys =
     (case handleSaveUserName (ui sys, storage sys) of (s, st) \<Rightarrow> sys\<lparr>ui := s, storage := st\<rparr>)"
| "step P (GenerateNewAvatars userSeed aiSeed) sys =
     (case handleGenerateNewAvatars userSeed aiSeed (ui sys, storage sys) of
        (s, st) \<Rightarrow> sys\<lparr>ui := s, storage := st\<rparr>)"
| "step P (SelectModel m) sys = sys\<lparr>ui := (ui sys)\<lparr>selectedModel := m\<rparr>\<rparr>"
| "step P (OllamaProbe outcome) sys = sys\<lparr>ui := checkOllamaStatus outcome (ui sys)\<rparr>"

text \<open>A run: the first activation on an empty store, then the events in their order.\<close>

definition run :: "Platform \<Rightarrow> int \<Rightarrow> nat \<Rightarrow> nat \<Rightarrow> event list \<Rightarrow> System" where
  "run P now userSeed aiSeed evs =
     foldl (\<lambda>sys e. step P e sys) (mount P now userSeed aiSeed empty_storage) evs"

text \<open>The clock readings \<open>Date.now()\<close> of the submissions of a run, in their order.\<close>

fun submit_clocks :: "event list \<Rightarrow> int list" where
  "submit_clocks [] = []"
| "submit_clocks (Submit idNow tsNow # evs) = idNow # submit_clocks evs"
| "submit_clocks (e # evs) = submit_clocks evs"

text \<open>A date codec for examples: a sign and as many marks as the instant counts.\<close>

definition tally_platform :: Platform where
  "tally_platform =
     \<lparr>toISOString = (\<lambda>t. (if t < 0 then CHR ''-'' else CHR ''+'') # replicate (nat \<bar>t\<bar>) CHR ''I''),
      parseDate = (\<lambda>txt. case txt of
                     [] \<Rightarrow> None
                   | c # cs \<Rightarrow> Some (if c = CHR ''-'' then - int (length cs) else int (length cs)))\<rparr>"

text \<open>A dispatch fails when \<open>fetch\<close> rejects or the response is not ok.\<close>

definition failed :: "fetch_outcome \<Rightarrow> bool" where
  "failed outcome = (case outcome of Rejected e \<Rightarrow> True | Resolved response \<Rightarrow> \<not> ok response)"

subsection \<open>Invariants of a run\<close>

text \<open>The stored history is the JSON of the messages shown, and there is a message.\<close>

definition history_synced :: "Platform \<Rightarrow> System \<Rightarrow> bool" where
  "history_synced P sys =
     (chat_history (storage sys) = Some (map (JSON_stringify P) (messages (ui sys)))
      \<and> messages (ui sys) \<noteq> [])"

text \<open>The stored profile is the profile shown: the name is the default and not stored, or
  stored as shown; both avatars are stored as shown.\<close>

definition profile_synced :: "System \<Rightarrow> bool" where
  "profile_synced sys =
     ((chat_username (storage sys) = None \<and> userName (ui sys) = ''User''
       \<or> chat_username (storage sys) = Some (userName (ui sys)) \<and> userName (ui sys) \<noteq> [])
      \<and> user_avatar (storage sys) = Some (userAvatar (ui sys)) \<and> userAvatar (ui sys) \<noteq> []
      \<and> ai_avatar (storage sys) = Some (aiAvatar (ui sys)) \<and> aiAvatar (ui sys) \<noteq> [])"

definition timestamps_valid :: "System \<Rightarrow> bool" where
  "timestamps_valid sys = list_all (\<lambda>m. timestamp m \<noteq> None) (messages (ui sys))"

section \<open>Properties\<close>

lemma digits_ne: "digits n \<noteq> []"
  by (subst digits.simps) simp

lemmas op_defs = run_def mount_def load_effect_def load_userName_def load_userAvatar_def
  load_aiAvatar_def load_history_def initial_state_def empty_storage_def save_effect_def
  handleSubmit_send_def handleSubmit_settle_def handleSubmit_def handleClearChat_def
  handleSaveUserName_def handleGenerateNewAvatars_def checkOllamaStatus_def userMessage_def
  welcomeMessage_def JSON_stringify_def withTimestamp_def avatar_url_def drop_nth_def

lemmas str_defs = trim_def isWhiteSpace_def number_toString_def digits.simps digit_char_def

subsection \<open>A failed dispatch\<close>

lemma settle_messages: "messages (handleSubmit_settle outcome s) = messages s"
  by (simp add: handleSubmit_settle_def split: fetch_outcome.split thrown.split)

text \<open>
  Claim C3. An accepted submission whose dispatch fails (the \<open>fetch\<close> rejects, or the
  response is not 2xx) ends with the conversation being the earlier messages followed by
  the user message: no assistant message is added. The failure is recorded as the session
  error: the message of the thrown error, or the text with the HTTP status when a
  response came. Whatever error was recorded before does not matter, and the loading flag
  is false. The same holds when other events are handled while the request is in flight:
  the second half of \<open>handleSubmit\<close> leaves the messages of any state as they are and
  records the same error.
\<close>

theorem failed_dispatch_records_error:
  assumes "trim (userInput s) \<noteq> []" and "failed outcome"
  shows "messages (handleSubmit idNow tsNow outcome s) = messages s @ [userMessage idNow tsNow s]
       \<and> role (userMessage idNow tsNow s) = User
       \<and> filter (\<lambda>m. role m = Assistant) (messages (handleSubmit idNow tsNow outcome s))
           = filter (\<lambda>m. role m = Assistant) (messages s)
       \<and> error (handleSubmit idNow tsNow outcome s)
           = Some (case outcome of
                     Rejected (Error msg) \<Rightarrow> msg
                   | Rejected NonError \<Rightarrow> ''An unknown error occurred''
                   | Resolved response \<Rightarrow> ''HTTP error! status: '' @ number_toString (int (status response)))
       \<and> error (handleSubmit idNow tsNow outcome (s\<lparr>error := previous\<rparr>))
           = error (handleSubmit idNow tsNow outcome s)
       \<and> isLoading (handleSubmit idNow tsNow outcome s) = False
       \<and> messages (handleSubmit_settle outcome later) = messages later
       \<and> error (handleSubmit_settle outcome later) = error (handleSubmit idNow tsNow outcome s)"
  using assms
  by (cases outcome)
     (auto simp: handleSubmit_def handleSubmit_send_def handleSubmit_settle_def userMessage_def failed_def
      split: thrown.split)

theorem failed_dispatch_records_error_witness:
  "map role (messages (handleSubmit 5 6 (Resolved \<lparr>status = 500, body = []\<rparr>)
       (initial_state\<lparr>messages := [welcomeMessage 0], userInput := ''hi'', error := Some ''old''\<rparr>)))
     = [Assistant, User]
   \<and> error (handleSubmit 5 6 (Resolved \<lparr>status = 500, body = []\<rparr>)
       (initial_state\<lparr>messages := [welcomeMessage 0], userInput := ''hi'', error := Some ''old''\<rparr>))
     = Some ''HTTP error! status: 500''"
  using failed_dispatch_records_error [of "initial_state\<lparr>messages := [welcomeMessage 0], userInput := ''hi'', error := Some ''old''\<rparr>"
      "Resolved \<lparr>status = 500, body = []\<rparr>" 5 6]
  by (simp add: failed_def ok_def initial_state_def welcomeMessage_def userMessage_def str_defs)


subsection \<open>The request that leaves\<close>

text \<open>
  Claim C9. When \<open>handleSubmit\<close> dispatches, the body of the request holds the whole
  conversation as it stands after the user message was appended, each message reduced to
  its role and its content, in order (no id, no timestamp), and the \<open>model_type\<close> of the
  backend selected at that moment. The record \<open>ChatRequest\<close> has no other field. In the
  transition system, that request is the one the submission adds to those in flight.
\<close>

theorem request_body_is_projection:
  assumes "handleSubmit_send idNow tsNow s = Some (s', request)"
  shows "req_messages request = map (\<lambda>m. (role m, content m)) (messages s')
       \<and> req_model_type request = selectedModel s
       \<and> selectedModel s' = selectedModel s
       \<and> messages s' = messages s @ [userMessage idNow tsNow s]
       \<and> (ui sys = s \<longrightarrow>
            inflight (step P (Submit idNow tsNow) sys)
              = inflight sys
                @ [\<lparr>req_messages =
                      map (\<lambda>m. (role m, content m)) (messages (ui (step P (Submit idNow tsNow) sys))),
                    req_model_type = selectedModel (ui sys)\<rparr>])"
  using assms by (auto simp: handleSubmit_send_def split: if_splits)

theorem request_body_is_projection_witness:
  "req_messages (snd (the (handleSubmit_send 5 6
       (initial_state\<lparr>messages := [welcomeMessage 0], userInput := ''hi'', selectedModel := Openrouter\<rparr>))))
     = [(Assistant, content (welcomeMessage 0)), (User, ''hi'')]
   \<and> req_model_type (snd (the (handleSubmit_send 5 6
       (initial_state\<lparr>messages := [welcomeMessage 0], userInput := ''hi'', selectedModel := Openrouter\<rparr>))))
     = Openrouter"
  using request_body_is_projection [of 5 6
      "initial_state\<lparr>messages := [welcomeMessage 0], userInput := ''hi'', selectedModel := Openrouter\<rparr>"
      "fst (the (handleSubmit_send 5 6
       (initial_state\<lparr>messages := [welcomeMessage 0], userInput := ''hi'', selectedModel := Openrouter\<rparr>)))"
      "snd (the (handleSubmit_send 5 6
       (initial_state\<lparr>messages := [welcomeMessage 0], userInput := ''hi'', selectedModel := Openrouter\<rparr>)))"]
  by (simp add: handleSubmit_send_def initial_state_def welcomeMessage_def userMessage_def str_defs)

subsection \<open>Clearing the chat\<close>

text \<open>
  Claim C4, as the code has it. \<open>handleClearChat\<close> replaces the messages by the one
  welcome message, whose role is assistant, and stores that history. It leaves the
  recorded error as it was (the component never calls \<open>setError\<close> but in the \<open>catch\<close> of
  \<open>handleSubmit\<close>), and it leaves the selected backend, the display name and both
  avatars unchanged, in the state and in the store.
\<close>

theorem clear_chat_resets_messages_only:
  "messages (fst (handleClearChat P now (s, st))) = [welcomeMessage now]
   \<and> role (welcomeMessage now) = Assistant
   \<and> error (fst (handleClearChat P now (s, st))) = error s
   \<and> selectedModel (fst (handleClearChat P now (s, st))) = selectedModel s
   \<and> userName (fst (handleClearChat P now (s, st))) = userName s
   \<and> userAvatar (fst (handleClearChat P now (s, st))) = userAvatar s
   \<and> aiAvatar (fst (handleClearChat P now (s, st))) = aiAvatar s
   \<and> chat_username (snd (handleClearChat P now (s, st))) = chat_username st
   \<and> user_avatar (snd (handleClearChat P now (s, st))) = user_avatar st
   \<and> ai_avatar (snd (handleClearChat P now (s, st))) = ai_avatar st
   \<and> chat_history (snd (handleClearChat P now (s, st))) = Some [JSON_stringify P (welcomeMessage now)]"
  by (simp add: handleClearChat_def welcomeMessage_def)

text \<open>Against C4 as stated: a submission fails with status 500, then the chat is
  cleared; the error is still recorded.\<close>

theorem clear_chat_keeps_error_counterexample:
  "error (ui (run tally_platform 0 1 2
      [SetUserInput ''hi'', Submit 5 6, FetchSettled 0 (Resolved \<lparr>status = 500, body = []\<rparr>)]))
     = Some ''HTTP error! status: 500''
   \<and> error (ui (run tally_platform 0 1 2
      [SetUserInput ''hi'', Submit 5 6, FetchSettled 0 (Resolved \<lparr>status = 500, body = []\<rparr>),
       ClearChat 9]))
     = Some ''HTTP error! status: 500''
   \<and> messages (ui (run tally_platform 0 1 2
      [SetUserInput ''hi'', Submit 5 6, FetchSettled 0 (Resolved \<lparr>status = 500, body = []\<rparr>),
       ClearChat 9]))
     = [welcomeMessage 9]"
  by (simp add: op_defs str_defs ok_def Let_def)

subsection \<open>Connectivity\<close>

text \<open>
  Claim C5, as the code has it. In the chat interface the one connectivity state (Ollama's)
  becomes connected when the probe's body reports the status \<open>online\<close> and disconnected
  on any other body and on a probe that fails; nothing else of the state changes. The
  widget \<open>ApiStatus\<close> sets each backend's flag from that backend's own body when both
  probes give a body, and changes neither flag when a probe fails. The route handler
  answers \<open>online\<close> exactly when Ollama's health endpoint gave an ok response.
\<close>

theorem connectivity_probe:
  "connectionStatus (checkOllamaStatus outcome s)
     = (if outcome = ProbeData (Some ''online'') then Connected else Disconnected)
   \<and> checkOllamaStatus outcome s = s\<lparr>connectionStatus := connectionStatus (checkOllamaStatus outcome s)\<rparr>
   \<and> storage (step P (OllamaProbe outcome) sys) = storage sys
   \<and> inflight (step P (OllamaProbe outcome) sys) = inflight sys
   \<and> checkStatus (ProbeData a) (ProbeData b) st
       = \<lparr>ollama = (a = Some ''online''), openrouter = (b = Some ''online'')\<rparr>
   \<and> checkStatus ProbeFailed p st = st
   \<and> checkStatus p ProbeFailed st = st
   \<and> body_status (GET upstream)
       = (case upstream of
            Resolved response \<Rightarrow> if ok response then ''online'' else ''offline''
          | Rejected e \<Rightarrow> ''offline'')"
  by (simp add: checkOllamaStatus_def checkStatus_def GET_def
      split: probe_outcome.split fetch_outcome.split)

text \<open>Against C5 as stated: in \<open>ApiStatus\<close>, Ollama's probe reports \<open>online\<close> and the
  OpenRouter probe fails; Ollama's flag is not set.\<close>

theorem coupled_probes_counterexample:
  "ollama (checkStatus (ProbeData (Some ''online'')) ProbeFailed ApiStatus_initial) = False"
  by (simp add: checkStatus_def ApiStatus_initial_def)

subsection \<open>The order of the steps of a submission\<close>

text \<open>
  Claim C6, as the code has it. An accepted submission appends the user message (role
  user, the text of the input) at the end of the conversation before the request leaves,
  and at that point the input and the recorded error are as they were. The input is
  cleared when the dispatch resolves with a response, and kept when it is rejected. The
  error of a failed dispatch is recorded at completion, after the append, and recording it
  leaves the messages as they are.
\<close>

theorem user_message_appended_before_dispatch:
  assumes "handleSubmit_send idNow tsNow s = Some (s', request)"
  shows "messages s' = messages s @ [userMessage idNow tsNow s]
       \<and> role (userMessage idNow tsNow s) = User
       \<and> content (userMessage idNow tsNow s) = userInput s
       \<and> userInput s' = userInput s
       \<and> error s' = error s
       \<and> userInput (handleSubmit_settle (Resolved response) s'') = []
       \<and> userInput (handleSubmit_settle (Rejected e) s'') = userInput s''
       \<and> (failed outcome \<longrightarrow>
            messages (handleSubmit_settle outcome s'') = messages s''
            \<and> error (handleSubmit_settle outcome s'') \<noteq> None)"
  using assms
  by (auto simp: handleSubmit_send_def userMessage_def handleSubmit_settle_def failed_def
      split: if_splits fetch_outcome.splits thrown.splits)

theorem user_message_appended_before_dispatch_witness:
  "map content (messages (fst (the (handleSubmit_send 5 6 (initial_state\<lparr>userInput := ''hi''\<rparr>))))) = [''hi'']
   \<and> userInput (handleSubmit_settle (Resolved \<lparr>status = 200, body = ''reply''\<rparr>)
        (fst (the (handleSubmit_send 5 6 (initial_state\<lparr>userInput := ''hi''\<rparr>))))) = []"
  using user_message_appended_before_dispatch [of 5 6 "initial_state\<lparr>userInput := ''hi''\<rparr>"
     "fst (the (handleSubmit_send 5 6 (initial_state\<lparr>userInput := ''hi''\<rparr>)))"
     "snd (the (handleSubmit_send 5 6 (initial_state\<lparr>userInput := ''hi''\<rparr>)))"
     "\<lparr>status = 200, body = ''reply''\<rparr>"
     "fst (the (handleSubmit_send 5 6 (initial_state\<lparr>userInput := ''hi''\<rparr>)))"]
  by (simp add: handleSubmit_send_def initial_state_def userMessage_def str_defs)

text \<open>Against C6 as stated: with the request in flight the input still holds the text,
  and it still does after the dispatch was rejected.\<close>

theorem input_not_cleared_before_dispatch_counterexample:
  "userInput (ui (run tally_platform 0 1 2 [SetUserInput ''hi'', Submit 5 6])) = ''hi''
   \<and> length (inflight (run tally_platform 0 1 2 [SetUserInput ''hi'', Submit 5 6])) = 1
   \<and> userInput (ui (run tally_platform 0 1 2
        [SetUserInput ''hi'', Submit 5 6, FetchSettled 0 (Rejected (Error ''Failed to fetch''))])) = ''hi''"
  by (simp add: op_defs str_defs Let_def)

subsection \<open>A successful dispatch\<close>

text \<open>
  Claim C1, as the code has it. An accepted submission appends the user message at the
  end of the conversation when the request leaves. When the dispatch succeeds, the
  completion, in whatever state it finds the component (other events may have been handled
  while the request was in flight), keeps the messages of that state as the beginning of
  the conversation, sets the loading flag to false, empties the input, and leaves the
  recorded error as it was: the component never clears it. In the transition system the
  step that settles a request in flight is that completion. When nothing is handled in
  between, the conversation therefore starts with the earlier messages followed by the
  user message.
\<close>

theorem successful_dispatch:
  assumes "trim (userInput s) \<noteq> []" and "ok response"
  shows "(case handleSubmit_send idNow tsNow s of
            None \<Rightarrow> False
          | Some (s', request) \<Rightarrow>
              messages s' = messages s @ [userMessage idNow tsNow s] \<and> error s' = error s)
       \<and> role (userMessage idNow tsNow s) = User
       \<and> prefix (messages later) (messages (handleSubmit_settle (Resolved response) later))
       \<and> isLoading (handleSubmit_settle (Resolved response) later) = False
       \<and> userInput (handleSubmit_settle (Resolved response) later) = []
       \<and> error (handleSubmit_settle (Resolved response) later) = error later
       \<and> (i < length (inflight sys) \<longrightarrow>
            ui (step P (FetchSettled i (Resolved response)) sys)
              = handleSubmit_settle (Resolved response) (ui sys))
       \<and> prefix (messages s @ [userMessage idNow tsNow s])
           (messages (handleSubmit idNow tsNow (Resolved response) s))
       \<and> isLoading (handleSubmit idNow tsNow (Resolved response) s) = False
       \<and> userInput (handleSubmit idNow tsNow (Resolved response) s) = []
       \<and> error (handleSubmit idNow tsNow (Resolved response) s) = error s"
  using assms
  by (simp add: handleSubmit_def handleSubmit_send_def handleSubmit_settle_def userMessage_def)

theorem successful_dispatch_witness:
  "isLoading (handleSubmit 5 6 (Resolved \<lparr>status = 200, body = ''reply''\<rparr>)
      (initial_state\<lparr>messages := [welcomeMessage 0], userInput := ''hi'', error := Some ''old''\<rparr>)) = False
   \<and> error (handleSubmit 5 6 (Resolved \<lparr>status = 200, body = ''reply''\<rparr>)
      (initial_state\<lparr>messages := [welcomeMessage 0], userInput := ''hi'', error := Some ''old''\<rparr>)) = Some ''old''
   \<and> prefix [welcomeMessage 9]
        (messages (ui (run tally_platform 0 1 2
           [SetUserInput ''hi'', Submit 5 6, ClearChat 9,
            FetchSettled 0 (Resolved \<lparr>status = 200, body = ''reply''\<rparr>)])))
   \<and> userInput (ui (run tally_platform 0 1 2
           [SetUserInput ''hi'', Submit 5 6, ClearChat 9,
            FetchSettled 0 (Resolved \<lparr>status = 200, body = ''reply''\<rparr>)])) = []"
  using successful_dispatch [of "initial_state\<lparr>messages := [welcomeMessage 0], userInput := ''hi'', error := Some ''old''\<rparr>"
     "\<lparr>status = 200, body = ''reply''\<rparr>" 5 6
     "ui (run tally_platform 0 1 2 [SetUserInput ''hi'', Submit 5 6, ClearChat 9])"
     0 "run tally_platform 0 1 2 [SetUserInput ''hi'', Submit 5 6, ClearChat 9]" tally_platform]
  by (simp add: ok_def op_defs str_defs Let_def)

text \<open>Against C1 as stated: a first submission fails with status 500, a second one
  succeeds with a reply. The conversation holds the welcome message and the two user
  messages, no reply, and the error of the first submission is still recorded.\<close>

theorem no_reply_appended_counterexample:
  "map role (messages (ui (run tally_platform 0 1 2
      [SetUserInput ''hi'', Submit 5 6, FetchSettled 0 (Resolved \<lparr>status = 500, body = []\<rparr>),
       SetUserInput ''hi again'', Submit 7 8,
       FetchSettled 0 (Resolved \<lparr>status = 200, body = ''Fatigue, pale skin''\<rparr>)])))
     = [Assistant, User, User]
   \<and> error (ui (run tally_platform 0 1 2
      [SetUserInput ''hi'', Submit 5 6, FetchSettled 0 (Resolved \<lparr>status = 500, body = []\<rparr>),
       SetUserInput ''hi again'', Submit 7 8,
       FetchSettled 0 (Resolved \<lparr>status = 200, body = ''Fatigue, pale skin''\<rparr>)]))
     = Some ''HTTP error! status: 500''
   \<and> ok \<lparr>status = 200, body = ''Fatigue, pale skin''\<rparr>"
  by (simp add: op_defs str_defs ok_def Let_def)

subsection \<open>Rejected and accepted submissions\<close>

lemma blank_submit_rejected:
  "trim (userInput (ui sys)) = [] \<Longrightarrow> step P (Submit idNow tsNow) sys = sys"
  by (simp add: handleSubmit_send_def)

text \<open>
  Claim C2 at the input where the code departs from it. The first submission of the text
  \<open>hi\<close> is in flight: one request has left, none is answered, the loading flag is
  false, the submit button is enabled and the input still holds the text. A second
  submission is not rejected: a second user message is appended and a second request
  leaves. (A submission of a blank input is rejected with no change at all:
  \<open>blank_submit_rejected\<close>.)
\<close>

theorem second_submit_while_first_in_flight:
  "length (inflight (run tally_platform 0 1 2 [SetUserInput ''hi'', Submit 5 6])) = 1
   \<and> isLoading (ui (run tally_platform 0 1 2 [SetUserInput ''hi'', Submit 5 6])) = False
   \<and> submit_disabled (ui (run tally_platform 0 1 2 [SetUserInput ''hi'', Submit 5 6])) = False
   \<and> userInput (ui (run tally_platform 0 1 2 [SetUserInput ''hi'', Submit 5 6])) = ''hi''
   \<and> map id_msg (messages (ui (run tally_platform 0 1 2 [SetUserInput ''hi'', Submit 5 6])))
       = [''welcome-message'', ''5'']
   \<and> map id_msg (messages (ui (run tally_platform 0 1 2 [SetUserInput ''hi'', Submit 5 6, Submit 7 8])))
       = [''welcome-message'', ''5'', ''7'']
   \<and> length (inflight (run tally_platform 0 1 2 [SetUserInput ''hi'', Submit 5 6, Submit 7 8])) = 2"
  by (simp add: op_defs str_defs submit_disabled_def Let_def)

subsection \<open>The loading flag\<close>

lemma run_Nil: "run P now userSeed aiSeed [] = mount P now userSeed aiSeed empty_storage"
  by (simp add: run_def)

lemma run_snoc: "run P now userSeed aiSeed (evs @ [e]) = step P e (run P now userSeed aiSeed evs)"
  by (simp add: run_def)

lemma load_effect_isLoading: "isLoading (fst (load_effect P now userSeed aiSeed (s, st))) = isLoading s"
  by (simp add: load_effect_def load_userName_def load_userAvatar_def load_aiAvatar_def
      load_history_def Let_def split: option.split)

lemma mount_isLoading: "isLoading (ui (mount P now userSeed aiSeed st)) = False"
proof -
  obtain s' st' where l: "load_effect P now userSeed aiSeed (initial_state, st) = (s', st')"
    by (cases "load_effect P now userSeed aiSeed (initial_state, st)")
  have "isLoading s' = isLoading initial_state"
    using load_effect_isLoading [of P now userSeed aiSeed initial_state st] l by simp
  moreover have "isLoading initial_state = False"
    by (simp add: initial_state_def)
  ultimately show ?thesis
    by (simp add: mount_def l)
qed

lemma settle_isLoading: "isLoading (handleSubmit_settle outcome s) = False"
  by (simp add: handleSubmit_settle_def split: fetch_outcome.split thrown.split)

lemma step_isLoading: "\<not> isLoading (ui sys) \<Longrightarrow> \<not> isLoading (ui (step P e sys))"
proof (cases e)
  case (Mount now userSeed aiSeed)
  then show ?thesis by (simp add: mount_isLoading)
next
  case (Submit idNow tsNow)
  assume "\<not> isLoading (ui sys)"
  with Submit show ?thesis
    by (auto simp: handleSubmit_send_def split: option.split)
next
  case (FetchSettled i outcome)
  assume "\<not> isLoading (ui sys)"
  with FetchSettled show ?thesis by (simp add: settle_isLoading)
next
  case (OllamaProbe outcome)
  assume "\<not> isLoading (ui sys)"
  with OllamaProbe show ?thesis by (simp add: checkOllamaStatus_def split: probe_outcome.split)
qed (simp_all add: handleClearChat_def handleSaveUserName_def handleGenerateNewAvatars_def Let_def)

lemma run_isLoading: "\<not> isLoading (ui (run P now userSeed aiSeed evs))"
proof (induction evs rule: rev_induct)
  case Nil
  show ?case by (simp add: run_Nil mount_isLoading)
next
  case (snoc e evs)
  then show ?case by (simp add: run_snoc step_isLoading)
qed

text \<open>
  Claim C10. In every state a run reaches the loading flag is false: every step from a
  state where it is false ends in one where it is false. So the spinner is never shown,
  and the submit button is disabled exactly when the input is blank.
\<close>

theorem loading_flag_never_true:
  "isLoading (ui (run P now userSeed aiSeed evs)) = False
   \<and> spinner_shown (ui (run P now userSeed aiSeed evs)) = False
   \<and> submit_disabled (ui (run P now userSeed aiSeed evs))
       = (trim (userInput (ui (run P now userSeed aiSeed evs))) = [])
   \<and> (isLoading (ui sys) = False \<longrightarrow> isLoading (ui (step P e sys)) = False)"
  using run_isLoading [of P now userSeed aiSeed evs] step_isLoading [of sys P e]
  by (simp add: spinner_shown_def submit_disabled_def)

theorem loading_flag_never_true_witness:
  "isLoading (ui (run tally_platform 0 1 2 [SetUserInput ''hi'', Submit 5 6])) = False
   \<and> length (inflight (run tally_platform 0 1 2 [SetUserInput ''hi'', Submit 5 6])) = 1
   \<and> submit_disabled (ui (run tally_platform 0 1 2 [SetUserInput ''hi'', Submit 5 6])) = False
   \<and> isLoading (ui (step tally_platform (Submit 7 8) (run tally_platform 0 1 2 [SetUserInput ''hi'', Submit 5 6]))) = False"
  using loading_flag_never_true [of tally_platform 0 1 2 "[SetUserInput ''hi'', Submit 5 6]"
     "run tally_platform 0 1 2 [SetUserInput ''hi'', Submit 5 6]" "Submit 7 8"]
  by (simp add: op_defs str_defs Let_def submit_disabled_def)


subsection \<open>Decimal strings\<close>

lemma digit_char_inj: "d < 10 \<Longrightarrow> e < 10 \<Longrightarrow> digit_char d = digit_char e \<Longrightarrow> d = e"
proof -
  assume a: "d < 10" "e < 10" "digit_char d = digit_char e"
  have "distinct ''0123456789''" by simp
  then have "(''0123456789'' ! d = ''0123456789'' ! e) = (d = e)"
    using a(1,2) by (intro nth_eq_iff_index_eq) simp_all
  with a(3) show ?thesis by (simp add: digit_char_def)
qed

lemma digit_char_mem: "d < 10 \<Longrightarrow> digit_char d \<in> set ''0123456789''"
  unfolding digit_char_def by (rule nth_mem) simp

lemma digits_set: "set (digits n) \<subseteq> set ''0123456789''"
proof (induction n rule: digits.induct)
  case (1 n)
  show ?case
  proof (cases "n < 10")
    case True
    then show ?thesis using digit_char_mem [of n] by (subst digits.simps) simp
  next
    case False
    have "n mod 10 < 10" by simp
    then have "digit_char (n mod 10) \<in> set ''0123456789''" by (rule digit_char_mem)
    with False "1.IH" show ?thesis by (subst digits.simps) simp
  qed
qed

lemma digits_inj: "digits n = digits m \<Longrightarrow> n = m"
proof (induction n arbitrary: m rule: digits.induct)
  case (1 n)
  show ?case
  proof (cases "n < 10")
    case n: True
    show ?thesis
    proof (cases "m < 10")
      case True
      with n "1.prems" show ?thesis
        using digit_char_inj [of n m] by (simp add: digits.simps [of n] digits.simps [of m])
    next
      case False
      have "length (digits m) = Suc (length (digits (m div 10)))"
        using False by (subst digits.simps) simp
      moreover have "length (digits n) = 1" using n by (subst digits.simps) simp
      moreover have "digits (m div 10) \<noteq> []" by (rule digits_ne)
      ultimately show ?thesis using "1.prems" by simp
    qed
  next
    case n: False
    show ?thesis
    proof (cases "m < 10")
      case True
      have "length (digits n) = Suc (length (digits (n div 10)))"
        using n by (subst digits.simps) simp
      moreover have "length (digits m) = 1" using True by (subst digits.simps) simp
      moreover have "digits (n div 10) \<noteq> []" by (rule digits_ne)
      ultimately show ?thesis using "1.prems" by simp
    next
      case False
      have "digits (n div 10) @ [digit_char (n mod 10)] = digits (m div 10) @ [digit_char (m mod 10)]"
        using n False "1.prems" by (simp add: digits.simps [of n] digits.simps [of m])
      then have a: "digits (n div 10) = digits (m div 10)"
        and b: "digit_char (n mod 10) = digit_char (m mod 10)" by simp_all
      have "n div 10 = m div 10" using "1.IH" [OF n a] .
      moreover have "n mod 10 = m mod 10" using digit_char_inj [OF _ _ b] by simp
      ultimately show ?thesis by (metis div_mult_mod_eq)
    qed
  qed
qed

lemma digits_no_minus: "CHR ''-'' \<notin> set (digits k)"
proof
  assume "CHR ''-'' \<in> set (digits k)"
  then have "CHR ''-'' \<in> set ''0123456789''" using digits_set [of k] by (rule rev_subsetD)
  then show False by simp
qed

lemma digits_no_w: "CHR ''w'' \<notin> set (digits k)"
proof
  assume "CHR ''w'' \<in> set (digits k)"
  then have "CHR ''w'' \<in> set ''0123456789''" using digits_set [of k] by (rule rev_subsetD)
  then show False by simp
qed

lemma digits_not_minus_Cons: "digits k \<noteq> CHR ''-'' # xs"
proof
  assume "digits k = CHR ''-'' # xs"
  then have "CHR ''-'' \<in> set (digits k)" by simp
  with digits_no_minus show False by blast
qed

lemma number_toString_inj: "number_toString a = number_toString b \<Longrightarrow> a = b"
proof -
  assume eq: "number_toString a = number_toString b"
  show ?thesis
  proof (cases "a < 0")
    case a: True
    show ?thesis
    proof (cases "b < 0")
      case True
      with a eq have "digits (nat (- a)) = digits (nat (- b))" by (simp add: number_toString_def)
      then have "nat (- a) = nat (- b)" by (rule digits_inj)
      with a True show ?thesis by simp
    next
      case False
      with a eq have "digits (nat b) = CHR ''-'' # digits (nat (- a))"
        by (simp add: number_toString_def)
      with digits_not_minus_Cons show ?thesis by blast
    qed
  next
    case a: False
    show ?thesis
    proof (cases "b < 0")
      case True
      with a eq have "digits (nat a) = CHR ''-'' # digits (nat (- b))"
        by (simp add: number_toString_def)
      with digits_not_minus_Cons show ?thesis by blast
    next
      case False
      with a eq have "digits (nat a) = digits (nat b)" by (simp add: number_toString_def)
      then have "nat a = nat b" by (rule digits_inj)
      with a False show ?thesis by simp
    qed
  qed
qed

lemma number_toString_not_welcome: "number_toString t \<noteq> ''welcome-message''"
proof
  assume eq: "number_toString t = ''welcome-message''"
  have "CHR ''w'' \<notin> set (number_toString t)"
    using digits_no_w by (simp add: number_toString_def)
  with eq show False by simp
qed

subsection \<open>The stored history follows the messages\<close>

lemma load_effect_messages:
  "messages (fst (load_effect P now userSeed aiSeed (s, st)))
     = (case chat_history st of
          Some js \<Rightarrow> map (withTimestamp P now) js
        | None \<Rightarrow> [welcomeMessage now])"
  by (simp add: load_effect_def load_userName_def load_userAvatar_def load_aiAvatar_def
      load_history_def Let_def split: option.split)

lemma load_effect_history:
  "chat_history (snd (load_effect P now userSeed aiSeed (s, st)))
     = (case chat_history st of
          Some js \<Rightarrow> Some js
        | None \<Rightarrow> Some [JSON_stringify P (welcomeMessage now)])"
  by (simp add: load_effect_def load_userName_def load_userAvatar_def load_aiAvatar_def
      load_history_def Let_def split: option.split)

lemma mount_ui: "ui (mount P now userSeed aiSeed st) = fst (load_effect P now userSeed aiSeed (initial_state, st))"
  by (simp add: mount_def split: prod.split)

lemma mount_storage:
  "storage (mount P now userSeed aiSeed st)
     = save_effect P (fst (load_effect P now userSeed aiSeed (initial_state, st)))
         (snd (load_effect P now userSeed aiSeed (initial_state, st)))"
  by (simp add: mount_def split: prod.split)

lemma mount_messages:
  "messages (ui (mount P now userSeed aiSeed st))
     = (case chat_history st of
          Some js \<Rightarrow> map (withTimestamp P now) js
        | None \<Rightarrow> [welcomeMessage now])"
  by (simp add: mount_ui load_effect_messages)

lemma save_effect_history:
  "messages s \<noteq> [] \<Longrightarrow> chat_history (save_effect P s st) = Some (map (JSON_stringify P) (messages s))"
  by (simp add: save_effect_def)

lemma mount_synced_empty: "history_synced P (mount P now userSeed aiSeed empty_storage)"
  by (simp add: history_synced_def mount_storage mount_messages save_effect_history
      load_effect_messages empty_storage_def)

lemma mount_synced:
  assumes "history_synced P sys"
  shows "history_synced P (mount P now userSeed aiSeed (storage sys))"
proof -
  from assms have h: "chat_history (storage sys) = Some (map (JSON_stringify P) (messages (ui sys)))"
    and ne: "messages (ui sys) \<noteq> []" by (simp_all add: history_synced_def)
  have m: "messages (ui (mount P now userSeed aiSeed (storage sys)))
      = map (withTimestamp P now) (map (JSON_stringify P) (messages (ui sys)))"
    by (simp add: mount_messages h)
  with ne have ne': "messages (ui (mount P now userSeed aiSeed (storage sys))) \<noteq> []" by simp
  then have "messages (fst (load_effect P now userSeed aiSeed (initial_state, storage sys))) \<noteq> []"
    by (simp add: mount_ui)
  then have "chat_history (storage (mount P now userSeed aiSeed (storage sys)))
      = Some (map (JSON_stringify P) (messages (ui (mount P now userSeed aiSeed (storage sys)))))"
    by (simp add: mount_storage save_effect_history mount_ui)
  with ne' show ?thesis by (simp add: history_synced_def)
qed

lemma step_synced: "history_synced P sys \<Longrightarrow> history_synced P (step P e sys)"
proof (cases e)
  case (Mount now userSeed aiSeed)
  assume "history_synced P sys"
  with Mount show ?thesis by (simp add: mount_synced)
next
  case (Submit idNow tsNow)
  assume "history_synced P sys"
  with Submit show ?thesis
    by (auto simp: history_synced_def handleSubmit_send_def save_effect_def split: option.split)
next
  case (FetchSettled i outcome)
  assume "history_synced P sys"
  with FetchSettled show ?thesis by (simp add: history_synced_def settle_messages)
next
  case (ClearChat now)
  assume "history_synced P sys"
  with ClearChat show ?thesis by (simp add: history_synced_def handleClearChat_def save_effect_def)
next
  case (OllamaProbe outcome)
  assume "history_synced P sys"
  with OllamaProbe show ?thesis
    by (simp add: history_synced_def checkOllamaStatus_def split: probe_outcome.split)
qed (simp_all add: history_synced_def handleSaveUserName_def handleGenerateNewAvatars_def Let_def)

lemma run_synced: "history_synced P (run P now userSeed aiSeed evs)"
proof (induction evs rule: rev_induct)
  case Nil
  show ?case by (simp add: run_Nil mount_synced_empty)
next
  case (snoc e evs)
  then show ?case by (simp add: run_snoc step_synced)
qed

subsection \<open>Message ids\<close>

lemma submit_clocks_append: "submit_clocks (xs @ ys) = submit_clocks xs @ submit_clocks ys"
  by (induction xs rule: submit_clocks.induct) simp_all

lemma restored_fields:
  "map (\<lambda>m. (id_msg m, role m, content m)) (map (withTimestamp P now) (map (JSON_stringify P) ms))
     = map (\<lambda>m. (id_msg m, role m, content m)) ms"
  by (simp add: withTimestamp_def JSON_stringify_def)

lemma mount_fields:
  assumes "history_synced P sys"
  shows "map (\<lambda>m. (id_msg m, role m, content m)) (messages (ui (mount P now userSeed aiSeed (storage sys))))
       = map (\<lambda>m. (id_msg m, role m, content m)) (messages (ui sys))"
  using assms by (simp add: history_synced_def mount_messages restored_fields del: map_map)

lemma fields_ids: 
  "map (\<lambda>m. (id_msg m, role m, content m)) xs = map (\<lambda>m. (id_msg m, role m, content m)) ys
   \<Longrightarrow> map id_msg xs = map id_msg ys"
proof -
  assume a: "map (\<lambda>m. (id_msg m, role m, content m)) xs = map (\<lambda>m. (id_msg m, role m, content m)) ys"
  from a have "map fst (map (\<lambda>m. (id_msg m, role m, content m)) xs)
      = map fst (map (\<lambda>m. (id_msg m, role m, content m)) ys)"
    by (rule arg_cong)
  then show ?thesis by (simp add: comp_def)
qed

text \<open>What one step does to the messages.\<close>

lemma step_messages:
  "messages (ui (step P e sys))
     = (case e of
          Mount now userSeed aiSeed \<Rightarrow> messages (ui (mount P now userSeed aiSeed (storage sys)))
        | Submit idNow tsNow \<Rightarrow>
            if trim (userInput (ui sys)) = [] then messages (ui sys)
            else messages (ui sys) @ [userMessage idNow tsNow (ui sys)]
        | ClearChat now \<Rightarrow> [welcomeMessage now]
        | _ \<Rightarrow> messages (ui sys))"
  by (cases e)
     (simp_all add: handleSubmit_send_def settle_messages handleClearChat_def handleSaveUserName_def
        handleGenerateNewAvatars_def checkOllamaStatus_def Let_def split: probe_outcome.split)

lemma step_ids:
  assumes "history_synced P sys"
  shows "map id_msg (messages (ui (step P e sys)))
     = (case e of
          Submit idNow tsNow \<Rightarrow>
            if trim (userInput (ui sys)) = [] then map id_msg (messages (ui sys))
            else map id_msg (messages (ui sys)) @ [number_toString idNow]
        | ClearChat now \<Rightarrow> [''welcome-message'']
        | _ \<Rightarrow> map id_msg (messages (ui sys)))"
proof -
  have "map id_msg (messages (ui (mount P now userSeed aiSeed (storage sys))))
      = map id_msg (messages (ui sys))" for now userSeed aiSeed
    using fields_ids [OF mount_fields [OF assms]] .
  then show ?thesis
    unfolding step_messages
    by (cases e) (simp_all add: userMessage_def welcomeMessage_def)
qed

lemma run_ids:
  "sorted_wrt (<) (submit_clocks evs) \<Longrightarrow>
   \<exists>ts. map id_msg (messages (ui (run P now userSeed aiSeed evs))) = ''welcome-message'' # map number_toString ts
      \<and> sorted_wrt (<) ts \<and> set ts \<subseteq> set (submit_clocks evs)"
proof (induction evs rule: rev_induct)
  case Nil
  have "map id_msg (messages (ui (run P now userSeed aiSeed []))) = ''welcome-message'' # map number_toString []"
    by (simp add: run_Nil mount_messages empty_storage_def welcomeMessage_def)
  then show ?case by (intro exI [of _ "[]"]) simp
next
  case (snoc e evs)
  let ?sys = "run P now userSeed aiSeed evs"
  let ?ids' = "map id_msg (messages (ui (run P now userSeed aiSeed (evs @ [e]))))"
  from snoc.prems have sorted: "sorted_wrt (<) (submit_clocks evs)"
    by (simp add: submit_clocks_append sorted_wrt_append)
  from snoc.IH [OF sorted] obtain ts where
    ids: "map id_msg (messages (ui ?sys)) = ''welcome-message'' # map number_toString ts"
    and ts: "sorted_wrt (<) ts" and sub: "set ts \<subseteq> set (submit_clocks evs)"
    by (elim exE conjE)
  have sub': "set ts \<subseteq> set (submit_clocks (evs @ [e]))"
    using sub by (simp add: submit_clocks_append le_supI1)
  have synced: "history_synced P ?sys" by (rule run_synced)
  have st: "?ids' = (case e of
          Submit idNow tsNow \<Rightarrow>
            if trim (userInput (ui ?sys)) = [] then map id_msg (messages (ui ?sys))
            else map id_msg (messages (ui ?sys)) @ [number_toString idNow]
        | ClearChat now \<Rightarrow> [''welcome-message'']
        | _ \<Rightarrow> map id_msg (messages (ui ?sys)))"
    unfolding run_snoc by (rule step_ids [OF synced])
  consider (append) idNow tsNow where "e = Submit idNow tsNow" "trim (userInput (ui ?sys)) \<noteq> []"
    | (clear) now' where "e = ClearChat now'"
    | (keep) "?ids' = map id_msg (messages (ui ?sys))"
    using st by (cases e) (simp_all split: if_splits)
  then show ?case
  proof cases
    case append
    with st ids have "?ids' = ''welcome-message'' # map number_toString (ts @ [idNow])" by simp
    moreover have "\<forall>t\<in>set (submit_clocks evs). t < idNow"
      using snoc.prems append(1) by (simp add: submit_clocks_append sorted_wrt_append)
    then have "sorted_wrt (<) (ts @ [idNow])" using ts sub by (auto simp: sorted_wrt_append)
    moreover have "set (ts @ [idNow]) \<subseteq> set (submit_clocks (evs @ [e]))"
      using sub append(1) by (auto simp: submit_clocks_append)
    ultimately show ?thesis by (intro exI [of _ "ts @ [idNow]"] conjI)
  next
    case clear
    with st have "?ids' = ''welcome-message'' # map number_toString []" by simp
    then show ?thesis by (intro exI [of _ "[]"]) simp
  next
    case keep
    with ids have "?ids' = ''welcome-message'' # map number_toString ts" by simp
    with ts sub' show ?thesis by (intro exI [of _ ts] conjI)
  qed
qed

lemma ids_distinct:
  assumes "ids = ''welcome-message'' # map number_toString ts" and "sorted_wrt (<) ts"
  shows "distinct ids"
proof -
  from assms(2) have "distinct ts" by (simp add: strict_sorted_iff)
  moreover have "inj_on number_toString (set ts)"
    by (rule inj_onI) (rule number_toString_inj)
  ultimately have "distinct (map number_toString ts)" by (simp add: distinct_map)
  moreover have "''welcome-message'' \<notin> set (map number_toString ts)"
  proof
    assume "''welcome-message'' \<in> set (map number_toString ts)"
    then obtain t where "number_toString t = ''welcome-message''" by auto
    with number_toString_not_welcome show False by blast
  qed
  ultimately show ?thesis using assms(1) by simp
qed

lemma step_fields:
  assumes "history_synced P sys"
  shows "(case e of
        Mount now' u a \<Rightarrow>
          map (\<lambda>m. (id_msg m, role m, content m)) (messages (ui (step P e sys)))
            = map (\<lambda>m. (id_msg m, role m, content m)) (messages (ui sys))
      | ClearChat now' \<Rightarrow> messages (ui (step P e sys)) = [welcomeMessage now']
      | _ \<Rightarrow> prefix (messages (ui sys)) (messages (ui (step P e sys)))
            \<and> length (messages (ui (step P e sys))) \<le> Suc (length (messages (ui sys))))"
proof -
  note m = mount_fields [OF assms]
  show ?thesis
    unfolding step_messages
    by (cases e) (simp_all add: m)
qed

text \<open>
  Claim C8, as the code has it. The id of a user message is the decimal text of the clock
  reading \<open>Date.now()\<close> at its submission, and the welcome message has the fixed id
  \<open>welcome-message\<close>. In a run whose submissions read strictly increasing clock values,
  the ids of the conversation are the welcome id followed by those readings in increasing
  order, so they are pairwise distinct. In every run, a step keeps the messages as a
  prefix and adds at most one at the end, or resets them to the welcome message (clear),
  or restores them from the store with the same ids, roles and contents in the same order
  (activation): no message is removed or moved on its own.
\<close>

theorem ids_distinct_when_clock_increases:
  assumes "sorted_wrt (<) (submit_clocks evs)"
  shows "distinct (map id_msg (messages (ui (run P now userSeed aiSeed evs))))
       \<and> (\<exists>ts. map id_msg (messages (ui (run P now userSeed aiSeed evs)))
                 = ''welcome-message'' # map number_toString ts
               \<and> sorted_wrt (<) ts)
       \<and> (case e of
            Mount now' u a \<Rightarrow>
              map (\<lambda>m. (id_msg m, role m, content m))
                  (messages (ui (step P e (run P now userSeed aiSeed evs))))
                = map (\<lambda>m. (id_msg m, role m, content m)) (messages (ui (run P now userSeed aiSeed evs)))
          | ClearChat now' \<Rightarrow>
              messages (ui (step P e (run P now userSeed aiSeed evs))) = [welcomeMessage now']
          | _ \<Rightarrow>
              prefix (messages (ui (run P now userSeed aiSeed evs)))
                     (messages (ui (step P e (run P now userSeed aiSeed evs))))
              \<and> length (messages (ui (step P e (run P now userSeed aiSeed evs))))
                   \<le> Suc (length (messages (ui (run P now userSeed aiSeed evs)))))"
proof -
  from run_ids [OF assms, of P now userSeed aiSeed] obtain ts where
    ids: "map id_msg (messages (ui (run P now userSeed aiSeed evs)))
            = ''welcome-message'' # map number_toString ts"
    and ts: "sorted_wrt (<) ts"
    by (elim exE conjE)
  have "distinct (map id_msg (messages (ui (run P now userSeed aiSeed evs))))"
    using ids ts by (rule ids_distinct)
  moreover have "\<exists>ts. map id_msg (messages (ui (run P now userSeed aiSeed evs)))
                 = ''welcome-message'' # map number_toString ts \<and> sorted_wrt (<) ts"
    using ids ts by (intro exI [of _ ts] conjI)
  moreover have "history_synced P (run P now userSeed aiSeed evs)" by (rule run_synced)
  note step_fields [OF this, of e]
  ultimately show ?thesis by (intro conjI)
qed

theorem ids_distinct_when_clock_increases_witness:
  "sorted_wrt (<) (submit_clocks [SetUserInput ''hi'', Submit 5 6, Submit 7 8])
   \<and> distinct (map id_msg (messages (ui (run tally_platform 0 1 2 [SetUserInput ''hi'', Submit 5 6, Submit 7 8]))))
   \<and> messages (ui (step tally_platform (ClearChat 9)
        (run tally_platform 0 1 2 [SetUserInput ''hi'', Submit 5 6, Submit 7 8]))) = [welcomeMessage 9]"
  using ids_distinct_when_clock_increases [of "[SetUserInput ''hi'', Submit 5 6, Submit 7 8]"
      tally_platform 0 1 2 "ClearChat 9"]
  by simp

text \<open>Against C8 as stated: two submissions that read the same clock value give two
  messages with the same id.\<close>

theorem same_clock_same_id_counterexample:
  "map id_msg (messages (ui (run tally_platform 0 1 2 [SetUserInput ''hi'', Submit 5 5, Submit 5 6])))
     = [''welcome-message'', ''5'', ''5'']
   \<and> \<not> distinct (map id_msg (messages (ui (run tally_platform 0 1 2 [SetUserInput ''hi'', Submit 5 5, Submit 5 6]))))"
  by (simp add: op_defs str_defs Let_def)

subsection \<open>Saving and reloading\<close>

lemma avatar_url_ne: "avatar_url style seed \<noteq> []"
  by (simp add: avatar_url_def)

lemma trim_Nil: "trim [] = []"
  by (simp add: trim_def)

lemma load_effect_userName:
  "userName (fst (load_effect P now userSeed aiSeed (s, st)))
     = (case chat_username st of None \<Rightarrow> userName s | Some n \<Rightarrow> if n = [] then userName s else n)"
  by (simp add: load_effect_def load_userName_def load_userAvatar_def load_aiAvatar_def
      load_history_def Let_def split: option.split)

lemma load_effect_userAvatar:
  "userAvatar (fst (load_effect P now userSeed aiSeed (s, st)))
     = (case user_avatar st of
          None \<Rightarrow> avatar_url ''avataaars'' userSeed
        | Some a \<Rightarrow> if a = [] then avatar_url ''avataaars'' userSeed else a)"
  by (simp add: load_effect_def load_userName_def load_userAvatar_def load_aiAvatar_def
      load_history_def Let_def split: option.split)

lemma load_effect_aiAvatar:
  "aiAvatar (fst (load_effect P now userSeed aiSeed (s, st)))
     = (case ai_avatar st of
          None \<Rightarrow> avatar_url ''bottts'' aiSeed
        | Some a \<Rightarrow> if a = [] then avatar_url ''bottts'' aiSeed else a)"
  by (simp add: load_effect_def load_userName_def load_userAvatar_def load_aiAvatar_def
      load_history_def Let_def split: option.split)

lemma load_effect_stored_profile:
  "chat_username (snd (load_effect P now userSeed aiSeed (s, st))) = chat_username st
   \<and> user_avatar (snd (load_effect P now userSeed aiSeed (s, st)))
       = Some (userAvatar (fst (load_effect P now userSeed aiSeed (s, st))))
   \<and> ai_avatar (snd (load_effect P now userSeed aiSeed (s, st)))
       = Some (aiAvatar (fst (load_effect P now userSeed aiSeed (s, st))))"
  by (simp add: load_effect_def load_userName_def load_userAvatar_def load_aiAvatar_def
      load_history_def Let_def split: option.split)

lemma save_effect_profile:
  "chat_username (save_effect P s st) = chat_username st
   \<and> user_avatar (save_effect P s st) = user_avatar st
   \<and> ai_avatar (save_effect P s st) = ai_avatar st"
  by (simp add: save_effect_def)

text \<open>Reading back a message that was written with a valid timestamp.\<close>

lemma withTimestamp_JSON_stringify:
  assumes "\<And>t. parseDate P (toISOString P t) = Some t" and "\<And>t. toISOString P t \<noteq> []"
    and "timestamp m \<noteq> None"
  shows "withTimestamp P now (JSON_stringify P m) = m"
proof -
  from assms(3) obtain t where t: "timestamp m = Some t" by auto
  show ?thesis
    by (cases m) (use t assms(1,2) in \<open>simp add: withTimestamp_def JSON_stringify_def\<close>)
qed

lemma restore_messages:
  assumes "\<And>t. parseDate P (toISOString P t) = Some t" and "\<And>t. toISOString P t \<noteq> []"
    and "list_all (\<lambda>m. timestamp m \<noteq> None) ms"
  shows "map (withTimestamp P now) (map (JSON_stringify P) ms) = ms"
  using assms(3)
  by (induction ms) (simp_all add: withTimestamp_JSON_stringify [OF assms(1,2)])

text \<open>Activation on the store of a synced system gives back the messages and the profile.\<close>

lemma mount_restores:
  assumes codec: "\<And>t. parseDate P (toISOString P t) = Some t" "\<And>t. toISOString P t \<noteq> []"
    and h: "history_synced P sys" and p: "profile_synced sys" and v: "timestamps_valid sys"
  shows "messages (ui (mount P now userSeed aiSeed (storage sys))) = messages (ui sys)
       \<and> userName (ui (mount P now userSeed aiSeed (storage sys))) = userName (ui sys)
       \<and> userAvatar (ui (mount P now userSeed aiSeed (storage sys))) = userAvatar (ui sys)
       \<and> aiAvatar (ui (mount P now userSeed aiSeed (storage sys))) = aiAvatar (ui sys)"
proof -
  from h have hist: "chat_history (storage sys) = Some (map (JSON_stringify P) (messages (ui sys)))"
    by (simp add: history_synced_def)
  from v have "list_all (\<lambda>m. timestamp m \<noteq> None) (messages (ui sys))"
    by (simp add: timestamps_valid_def)
  then have "map (withTimestamp P now) (map (JSON_stringify P) (messages (ui sys))) = messages (ui sys)"
    by (rule restore_messages [OF codec])
  then have "messages (ui (mount P now userSeed aiSeed (storage sys))) = messages (ui sys)"
    by (simp add: mount_messages hist)
  moreover have "userName (ui (mount P now userSeed aiSeed (storage sys))) = userName (ui sys)"
    using p by (auto simp: mount_ui load_effect_userName profile_synced_def initial_state_def)
  moreover have "userAvatar (ui (mount P now userSeed aiSeed (storage sys))) = userAvatar (ui sys)"
    using p by (simp add: mount_ui load_effect_userAvatar profile_synced_def)
  moreover have "aiAvatar (ui (mount P now userSeed aiSeed (storage sys))) = aiAvatar (ui sys)"
    using p by (simp add: mount_ui load_effect_aiAvatar profile_synced_def)
  ultimately show ?thesis by (intro conjI)
qed

lemma mount_profile_synced:
  assumes "st = empty_storage \<or> (\<exists>sys. st = storage sys \<and> profile_synced sys)"
  shows "profile_synced (mount P now userSeed aiSeed st)"
  using assms
  by (auto simp: profile_synced_def mount_ui mount_storage save_effect_profile
      load_effect_stored_profile load_effect_userName load_effect_userAvatar load_effect_aiAvatar
      avatar_url_ne empty_storage_def initial_state_def split: option.splits)

lemma step_profile_synced: "profile_synced sys \<Longrightarrow> profile_synced (step P e sys)"
proof (cases e)
  case (Mount now userSeed aiSeed)
  assume "profile_synced sys"
  then have "profile_synced (mount P now userSeed aiSeed (storage sys))"
    by (intro mount_profile_synced) blast
  with Mount show ?thesis by simp
next
  case (Submit idNow tsNow)
  assume "profile_synced sys"
  with Submit show ?thesis
    by (auto simp: profile_synced_def handleSubmit_send_def save_effect_def split: option.split)
next
  case (FetchSettled i outcome)
  assume "profile_synced sys"
  with FetchSettled show ?thesis
    by (auto simp: profile_synced_def handleSubmit_settle_def
        split: fetch_outcome.split thrown.split option.splits)
next
  case (ClearChat now)
  assume "profile_synced sys"
  with ClearChat show ?thesis by (auto simp: profile_synced_def handleClearChat_def save_effect_def)
next
  case SaveUserName
  assume "profile_synced sys"
  with SaveUserName show ?thesis
    using trim_Nil by (auto simp: profile_synced_def handleSaveUserName_def)
next
  case (GenerateNewAvatars userSeed aiSeed)
  assume "profile_synced sys"
  with GenerateNewAvatars show ?thesis
    by (auto simp: profile_synced_def handleGenerateNewAvatars_def Let_def avatar_url_ne)
next
  case (OllamaProbe outcome)
  assume "profile_synced sys"
  with OllamaProbe show ?thesis
    by (auto simp: profile_synced_def checkOllamaStatus_def split: probe_outcome.split)
qed (auto simp: profile_synced_def)

lemma run_profile_synced: "profile_synced (run P now userSeed aiSeed evs)"
proof (induction evs rule: rev_induct)
  case Nil
  show ?case by (simp add: run_Nil mount_profile_synced)
next
  case (snoc e evs)
  then show ?case by (simp add: run_snoc step_profile_synced)
qed

lemma step_timestamps_valid:
  assumes codec: "\<And>t. parseDate P (toISOString P t) = Some t" "\<And>t. toISOString P t \<noteq> []"
    and h: "history_synced P sys" and p: "profile_synced sys" and v: "timestamps_valid sys"
  shows "timestamps_valid (step P e sys)"
proof -
  have "messages (ui (mount P now userSeed aiSeed (storage sys))) = messages (ui sys)"
    for now userSeed aiSeed
    using mount_restores [OF codec h p v] by simp
  then show ?thesis
    using v unfolding timestamps_valid_def step_messages
    by (cases e) (simp_all add: userMessage_def welcomeMessage_def)
qed

lemma run_timestamps_valid:
  assumes codec: "\<And>t. parseDate P (toISOString P t) = Some t" "\<And>t. toISOString P t \<noteq> []"
  shows "timestamps_valid (run P now userSeed aiSeed evs)"
proof (induction evs rule: rev_induct)
  case Nil
  show ?case
    by (simp add: run_Nil timestamps_valid_def mount_messages empty_storage_def welcomeMessage_def)
next
  case (snoc e evs)
  then show ?case
    unfolding run_snoc
    by (intro step_timestamps_valid [OF codec run_synced run_profile_synced])
qed

text \<open>
  Claim C7. Take the state a run has reached, run the save effect and then the load
  effect of a fresh activation on the store: the messages are the same, in the same order
  and with the same timestamps, and so are the display name and both avatars. The two
  hypotheses are the platform's: parsing the ISO text of an instant gives that instant
  back, and that text is not empty.
\<close>

theorem persisted_session_reloads:
  assumes "\<And>t. parseDate P (toISOString P t) = Some t" and "\<And>t. toISOString P t \<noteq> []"
  shows "messages (fst (load_effect P now' userSeed' aiSeed'
             (initial_state, save_effect P (ui (run P now userSeed aiSeed evs))
                               (storage (run P now userSeed aiSeed evs)))))
           = messages (ui (run P now userSeed aiSeed evs))
       \<and> userName (fst (load_effect P now' userSeed' aiSeed'
             (initial_state, save_effect P (ui (run P now userSeed aiSeed evs))
                               (storage (run P now userSeed aiSeed evs)))))
           = userName (ui (run P now userSeed aiSeed evs))
       \<and> userAvatar (fst (load_effect P now' userSeed' aiSeed'
             (initial_state, save_effect P (ui (run P now userSeed aiSeed evs))
                               (storage (run P now userSeed aiSeed evs)))))
           = userAvatar (ui (run P now userSeed aiSeed evs))
       \<and> aiAvatar (fst (load_effect P now' userSeed' aiSeed'
             (initial_state, save_effect P (ui (run P now userSeed aiSeed evs))
                               (storage (run P now userSeed aiSeed evs)))))
           = aiAvatar (ui (run P now userSeed aiSeed evs))"
proof -
  let ?sys = "run P now userSeed aiSeed evs"
  have h: "history_synced P ?sys" by (rule run_synced)
  have p: "profile_synced ?sys" by (rule run_profile_synced)
  have v: "timestamps_valid ?sys" by (rule run_timestamps_valid [OF assms])
  have "save_effect P (ui ?sys) (storage ?sys) = storage ?sys"
    using h by (simp add: history_synced_def save_effect_def)
  then show ?thesis
    using mount_restores [OF assms h p v, of now' userSeed' aiSeed'] by (simp add: mount_ui)
qed

theorem persisted_session_reloads_witness:
  "messages (fst (load_effect tally_platform 9 3 4
       (initial_state,
        save_effect tally_platform
          (ui (run tally_platform 0 1 2 [SetUserInput ''hi'', Submit 5 6, SetTempUserName ''Ada'', SaveUserName]))
          (storage (run tally_platform 0 1 2 [SetUserInput ''hi'', Submit 5 6, SetTempUserName ''Ada'', SaveUserName])))))
     = messages (ui (run tally_platform 0 1 2 [SetUserInput ''hi'', Submit 5 6, SetTempUserName ''Ada'', SaveUserName]))
   \<and> userName (fst (load_effect tally_platform 9 3 4
       (initial_state,
        save_effect tally_platform
          (ui (run tally_platform 0 1 2 [SetUserInput ''hi'', Submit 5 6, SetTempUserName ''Ada'', SaveUserName]))
          (storage (run tally_platform 0 1 2 [SetUserInput ''hi'', Submit 5 6, SetTempUserName ''Ada'', SaveUserName])))))
     = ''Ada''
   \<and> map timestamp (messages (ui (run tally_platform 0 1 2
          [SetUserInput ''hi'', Submit 5 6, SetTempUserName ''Ada'', SaveUserName])))
     = [Some 0, Some 6]"
proof -
  have codec: "parseDate tally_platform (toISOString tally_platform t) = Some t"
      "toISOString tally_platform t \<noteq> []" for t
    by (simp_all add: tally_platform_def)
  have "userName (ui (run tally_platform 0 1 2
          [SetUserInput ''hi'', Submit 5 6, SetTempUserName ''Ada'', SaveUserName])) = ''Ada''"
    by (simp add: op_defs str_defs Let_def)
  moreover have "map timestamp (messages (ui (run tally_platform 0 1 2
          [SetUserInput ''hi'', Submit 5 6, SetTempUserName ''Ada'', SaveUserName])))
     = [Some 0, Some 6]"
    by (simp add: op_defs str_defs Let_def)
  ultimately show ?thesis
    using persisted_session_reloads [OF codec, of 9 3 4 0 1 2
        "[SetUserInput ''hi'', Submit 5 6, SetTempUserName ''Ada'', SaveUserName]"]
    by simp
qed

end
